theory Spec2Isabelle
  imports Main
begin

section \<open>Data model of the clipboard history (main.go, lines 25-33 and 396-403)\<close>

text \<open>
  A Go \<^verbatim>\<open>string\<close> is a sequence of bytes; it is modelled as a \<^typ>\<open>string\<close>, a list of
  8-bit characters. The program declares the history entry twice, as \<^verbatim>\<open>ClipboardItem\<close> for
  the listener and as \<^verbatim>\<open>ClipboardEntry\<close> for the browser, with the same two fields and the
  same JSON tags; one record stands for both. A Go slice is modelled as a list: the nil
  slice and the empty slice are both \<^term>\<open>[]\<close>, as \<^verbatim>\<open>len\<close>, \<^verbatim>\<open>range\<close> and \<^verbatim>\<open>append\<close> treat
  them alike.
\<close>

record ClipboardItem =
  Value :: string
  Recorded :: string

type_synonym ClipboardEntry = ClipboardItem

record Data =
  ClipboardHistory :: "ClipboardItem list"

section \<open>Errors and outcomes\<close>

text \<open>
  The Go \<^verbatim>\<open>error\<close> values the program can meet: a file operation that fails, text that is
  not JSON, a JSON value of the wrong kind for its field, and a clipboard command that fails.
\<close>

datatype error = PathError | SyntaxError | UnmarshalTypeError | ClipboardError

text \<open>
  A call of the browser's handler either returns, panics (line 320) or ends the process
  with an exit code (line 333).
\<close>

datatype 'a outcome = Returned 'a | Panicked error | Exited nat

section \<open>The JSON codec (encoding/json, as the program uses it)\<close>

text \<open>
  The library is not part of the repository. The model follows its documented contract at
  the level of JSON values: a struct is written as an object keyed by its field tags, a
  slice as an array, and a string as a JSON string coerced to valid UTF-8, every invalid
  byte replaced by U+FFFD. Reading matches object keys with the tags, ignores unknown
  keys, leaves a field alone on \<^verbatim>\<open>null\<close>, and on a value of the wrong kind skips the field
  and reports the earliest such error. The escaping and the layout of the text are below
  this level. Keys are compared exactly; the library's fallback to a match that ignores
  letter case is left out.
\<close>

datatype json =
    JNull
  | JBool bool
  | JNumber int
  | JString string
  | JArray "json list"
  | JObject "(string \<times> json) list"

text \<open>
  \<^verbatim>\<open>utf8.DecodeRuneInString\<close>, reduced to the width of the rune at the head of the string:
  \<open>None\<close> where the library returns \<^verbatim>\<open>(RuneError, 1)\<close>. \<open>first\<close> is the library's table of
  the same name: the length of the sequence a leading byte announces and the range its second
  byte must lie in.
\<close>

definition first :: "nat \<Rightarrow> (nat \<times> nat \<times> nat) option" where
  "first b =
     (if b < 0x80 then Some (1, 0x00, 0x00)
      else if b < 0xC2 then None
      else if b < 0xE0 then Some (2, 0x80, 0xBF)
      else if b = 0xE0 then Some (3, 0xA0, 0xBF)
      else if b < 0xED then Some (3, 0x80, 0xBF)
      else if b = 0xED then Some (3, 0x80, 0x9F)
      else if b < 0xF0 then Some (3, 0x80, 0xBF)
      else if b = 0xF0 then Some (4, 0x90, 0xBF)
      else if b < 0xF4 then Some (4, 0x80, 0xBF)
      else if b = 0xF4 then Some (4, 0x80, 0x8F)
      else None)"

definition between :: "nat \<Rightarrow> nat \<Rightarrow> char \<Rightarrow> bool" where
  "between lo hi c = (lo \<le> of_char c \<and> of_char c \<le> hi)"

fun rune_width :: "string \<Rightarrow> nat option" where
  "rune_width [] = None"
| "rune_width (s0 # rest) =
     (case first (of_char s0) of
        None \<Rightarrow> None
      | Some (sz, lo, hi) \<Rightarrow>
          if sz = 1 then Some 1
          else if length (s0 # rest) < sz then None
          else if \<not> between lo hi (rest ! 0) then None
          else if sz \<le> 2 then Some 2
          else if \<not> between 0x80 0xBF (rest ! 1) then None
          else if sz \<le> 3 then Some 3
          else if \<not> between 0x80 0xBF (rest ! 2) then None
          else Some 4)"

text \<open>\<^verbatim>\<open>utf8.ValidString\<close>: every byte belongs to a well-formed sequence.\<close>

fun valid_utf8 :: "string \<Rightarrow> bool" where
  "valid_utf8 [] = True"
| "valid_utf8 (c # cs) =
     (case rune_width (c # cs) of
        None \<Rightarrow> False
      | Some n \<Rightarrow> valid_utf8 (drop (n - 1) cs))"

text \<open>U+FFFD in UTF-8.\<close>

definition replacement :: string where
  "replacement = [CHR 0xEF, CHR 0xBF, CHR 0xBD]"

text \<open>
  What a string is after it has been written as a JSON string and read back: well-formed
  sequences are kept, every other byte becomes U+FFFD.
\<close>

fun coerce_utf8 :: "string \<Rightarrow> string" where
  "coerce_utf8 [] = []"
| "coerce_utf8 (c # cs) =
     (case rune_width (c # cs) of
        None \<Rightarrow> replacement @ coerce_utf8 cs
      | Some n \<Rightarrow> c # take (n - 1) cs @ coerce_utf8 (drop (n - 1) cs))"

text \<open>
  Writing: \<^verbatim>\<open>Encoder.Encode\<close> and \<^verbatim>\<open>json.Marshal\<close> on the program's two struct types.
  The library writes a nil slice as \<^verbatim>\<open>null\<close> and an empty one as \<^verbatim>\<open>[]\<close>; both read back
  as a history of length 0, and the model writes the array in both cases.
\<close>

definition encode_item :: "ClipboardItem \<Rightarrow> json" where
  "encode_item e =
     JObject [(''value'', JString (coerce_utf8 (Value e))),
              (''recorded'', JString (coerce_utf8 (Recorded e)))]"

definition encode_Data :: "Data \<Rightarrow> json" where
  "encode_Data d = JObject [(''clipboardHistory'', JArray (map encode_item (ClipboardHistory d)))]"

text \<open>
  Reading: \<^verbatim>\<open>Decoder.Decode\<close> and \<^verbatim>\<open>json.Unmarshal\<close>. Each function returns the value
  it leaves in the target together with the earliest type error, if any.
\<close>

definition earliest :: "error option \<Rightarrow> error option \<Rightarrow> error option" where
  "earliest e1 e2 = (case e1 of None \<Rightarrow> e2 | Some e \<Rightarrow> Some e)"

fun decode_string :: "string \<Rightarrow> json \<Rightarrow> string \<times> error option" where
  "decode_string cur (JString s) = (coerce_utf8 s, None)"
| "decode_string cur JNull = (cur, None)"
| "decode_string cur (JBool b) = (cur, Some UnmarshalTypeError)"
| "decode_string cur (JNumber n) = (cur, Some UnmarshalTypeError)"
| "decode_string cur (JArray vs) = (cur, Some UnmarshalTypeError)"
| "decode_string cur (JObject kvs) = (cur, Some UnmarshalTypeError)"

fun decode_item_field :: "ClipboardItem \<times> error option \<Rightarrow> string \<times> json \<Rightarrow> ClipboardItem \<times> error option" where
  "decode_item_field (e, err) (k, v) =
     (if k = ''value'' then
        (case decode_string (Value e) v of (s, err') \<Rightarrow> (e\<lparr>Value := s\<rparr>, earliest err err'))
      else if k = ''recorded'' then
        (case decode_string (Recorded e) v of (s, err') \<Rightarrow> (e\<lparr>Recorded := s\<rparr>, earliest err err'))
      else (e, err))"

text \<open>An element of the array is read into a fresh, zero entry.\<close>

fun decode_item :: "json \<Rightarrow> ClipboardItem \<times> error option" where
  "decode_item (JObject kvs) = foldl decode_item_field (\<lparr>Value = [], Recorded = []\<rparr>, None) kvs"
| "decode_item JNull = (\<lparr>Value = [], Recorded = []\<rparr>, None)"
| "decode_item (JBool b) = (\<lparr>Value = [], Recorded = []\<rparr>, Some UnmarshalTypeError)"
| "decode_item (JNumber n) = (\<lparr>Value = [], Recorded = []\<rparr>, Some UnmarshalTypeError)"
| "decode_item (JString s) = (\<lparr>Value = [], Recorded = []\<rparr>, Some UnmarshalTypeError)"
| "decode_item (JArray vs) = (\<lparr>Value = [], Recorded = []\<rparr>, Some UnmarshalTypeError)"

fun decode_items :: "ClipboardItem list \<Rightarrow> json \<Rightarrow> ClipboardItem list \<times> error option" where
  "decode_items cur (JArray vs) =
     (map (\<lambda>v. fst (decode_item v)) vs, foldl earliest None (map (\<lambda>v. snd (decode_item v)) vs))"
| "decode_items cur JNull = ([], None)"
| "decode_items cur (JBool b) = (cur, Some UnmarshalTypeError)"
| "decode_items cur (JNumber n) = (cur, Some UnmarshalTypeError)"
| "decode_items cur (JString s) = (cur, Some UnmarshalTypeError)"
| "decode_items cur (JObject kvs) = (cur, Some UnmarshalTypeError)"

fun decode_Data_field :: "Data \<times> error option \<Rightarrow> string \<times> json \<Rightarrow> Data \<times> error option" where
  "decode_Data_field (d, err) (k, v) =
     (if k = ''clipboardHistory'' then
        (case decode_items (ClipboardHistory d) v of
           (h, err') \<Rightarrow> (d\<lparr>ClipboardHistory := h\<rparr>, earliest err err'))
      else (d, err))"

fun decode_Data :: "Data \<Rightarrow> json \<Rightarrow> Data \<times> error option" where
  "decode_Data cur (JObject kvs) = foldl decode_Data_field (cur, None) kvs"
| "decode_Data cur JNull = (cur, None)"
| "decode_Data cur (JBool b) = (cur, Some UnmarshalTypeError)"
| "decode_Data cur (JNumber n) = (cur, Some UnmarshalTypeError)"
| "decode_Data cur (JString s) = (cur, Some UnmarshalTypeError)"
| "decode_Data cur (JArray vs) = (cur, Some UnmarshalTypeError)"

text \<open>
  Two notions for stating what the codec does to an entry: the entry with both strings
  coerced, and an entry whose two strings are valid UTF-8.
\<close>

definition coerce_item :: "ClipboardItem \<Rightarrow> ClipboardItem" where
  "coerce_item e = \<lparr>Value = coerce_utf8 (Value e), Recorded = coerce_utf8 (Recorded e)\<rparr>"

definition valid_item :: "ClipboardItem \<Rightarrow> bool" where
  "valid_item e = (valid_utf8 (Value e) \<and> valid_utf8 (Recorded e))"

section \<open>The file system and the backing file\<close>

text \<open>
  What a file holds, at the level of the codec. \<open>Document j\<close>: the text is the one JSON
  value \<open>j\<close>, with nothing but white space around it. \<open>Trailing j\<close>: the text starts with
  the JSON value \<open>j\<close>, complete, and goes on with other text. \<open>Malformed\<close>: the text does
  not start with a JSON value (an empty file included). The program reads the file with two
  parsers that differ on the second kind: \<^verbatim>\<open>Decoder.Decode\<close> (line 104) reads the first
  value and leaves what follows unread, \<^verbatim>\<open>json.Unmarshal\<close> (line 432) takes the whole text
  and rejects it. \<open>writable\<close> says for each path whether creating or overwriting the file
  there succeeds. A write that fails after the file was created is not modelled.
\<close>

datatype file_content = Malformed | Document json | Trailing json

record fsys =
  files :: "string \<Rightarrow> file_content option"
  writable :: "string \<Rightarrow> bool"

text \<open>
  \<^verbatim>\<open>loadDataFromFile\<close> (lines 96-109): the error it returns and what it leaves in
  \<^verbatim>\<open>*data\<close>.
\<close>

definition loadDataFromFile :: "fsys \<Rightarrow> string \<Rightarrow> Data \<Rightarrow> error option \<times> Data" where
  "loadDataFromFile fs fullPath data =
     (case files fs fullPath of
        None \<Rightarrow> (Some PathError, data)
      | Some Malformed \<Rightarrow> (Some SyntaxError, data)
      | Some (Document j) \<Rightarrow> (case decode_Data data j of (data', err) \<Rightarrow> (err, data'))
      | Some (Trailing j) \<Rightarrow> (case decode_Data data j of (data', err) \<Rightarrow> (err, data')))"

text \<open>
  \<^verbatim>\<open>saveDataToFile\<close> (lines 112-125): \<^verbatim>\<open>os.Create\<close> truncates the file, the encoder
  writes the whole store.
\<close>

definition saveDataToFile :: "fsys \<Rightarrow> string \<Rightarrow> Data \<Rightarrow> error option \<times> fsys" where
  "saveDataToFile fs fullPath data =
     (if \<not> writable fs fullPath then (Some PathError, fs)
      else (None, fs\<lparr>files := (files fs)(fullPath := Some (Document (encode_Data data)))\<rparr>))"

section \<open>The listener (runListener, lines 35-83)\<close>

text \<open>\<^verbatim>\<open>contains\<close> (lines 86-93): the loop returns at the first entry whose value is the string.\<close>

fun contains :: "ClipboardItem list \<Rightarrow> string \<Rightarrow> bool" where
  "contains [] str = False"
| "contains (item # slice) str = (if Value item = str then True else contains slice str)"

text \<open>
  \<^verbatim>\<open>strings.Split(s, sep)[0]\<close> for a separator that is not empty: the part of \<^verbatim>\<open>s\<close> before
  the first occurrence of \<^verbatim>\<open>sep\<close>, and all of \<^verbatim>\<open>s\<close> when \<^verbatim>\<open>sep\<close> does not occur.
\<close>

fun split_first :: "string \<Rightarrow> string \<Rightarrow> string" where
  "split_first sep [] = []"
| "split_first sep (c # cs) =
     (if take (length sep) (c # cs) = sep then [] else c # split_first sep cs)"

text \<open>
  Lines 56-66, the body of the conditional: the eviction and the prepend. \<open>clock\<close> is the
  text of \<^verbatim>\<open>time.Now().UTC().String()\<close>, an input of the model. The slice expression of
  line 59 is in range, since it is only evaluated when the length is at least 50.
\<close>

definition add_item :: "Data \<Rightarrow> string \<Rightarrow> string \<Rightarrow> Data" where
  "add_item data text clock =
     (let data1 =
            (if length (ClipboardHistory data) \<ge> 50 then
               let lastIndex = length (ClipboardHistory data) - 1
               in data\<lparr>ClipboardHistory := take lastIndex (ClipboardHistory data)\<rparr>
             else data);
          timeNow = split_first ''+0000'' clock;
          item = \<lparr>Value = text, Recorded = timeNow\<rparr>
      in data1\<lparr>ClipboardHistory := item # ClipboardHistory data1\<rparr>)"

text \<open>
  Lines 48-74, one pass of the loop over the listener's store and the file system. The pass
  gets the text \<^verbatim>\<open>clipboard.ReadAll\<close> returned (empty when the read failed, which the
  program only prints) and the clock. An error of the save is printed and nothing else, so
  the store in memory is updated either way.
\<close>

fun listener_pass :: "string \<Rightarrow> Data \<times> fsys \<Rightarrow> string \<times> string \<Rightarrow> Data \<times> fsys" where
  "listener_pass fullPath (data, fs) (text, clock) =
     (if text \<noteq> [] \<and> \<not> contains (ClipboardHistory data) text then
        let data' = add_item data text clock
        in (data', snd (saveDataToFile fs fullPath data'))
      else (data, fs))"

text \<open>
  The loop never ends; \<open>listener_loop\<close> runs it over a finite prefix of what the
  clipboard and the clock show, pass by pass.
\<close>

fun listener_loop :: "string \<Rightarrow> Data \<times> fsys \<Rightarrow> (string \<times> string) list \<Rightarrow> Data \<times> fsys" where
  "listener_loop fullPath st [] = st"
| "listener_loop fullPath st (ob # obs) = listener_loop fullPath (listener_pass fullPath st ob) obs"

text \<open>
  \<^verbatim>\<open>runListener\<close>: the store starts as the zero \<^verbatim>\<open>Data\<close>, the file is loaded into it (an
  error is printed and the loop starts all the same), then the loop runs.
\<close>

definition runListener :: "fsys \<Rightarrow> string \<Rightarrow> (string \<times> string) list \<Rightarrow> Data \<times> fsys" where
  "runListener fs fullPath obs =
     (let data = snd (loadDataFromFile fs fullPath \<lparr>ClipboardHistory = []\<rparr>)
      in listener_loop fullPath (data, fs) obs)"

text \<open>
  The timestamp layout of the specification's data model, for comparison with what line 62
  records: a date and a time of day to the whole second, \<^verbatim>\<open>YYYY-MM-DD HH:MM:SS\<close>, with
  nothing but blanks after it. In the layout \<open>d\<close> stands for a decimal digit.
\<close>

definition is_digit :: "char \<Rightarrow> bool" where
  "is_digit c = (48 \<le> (of_char c :: nat) \<and> (of_char c :: nat) \<le> 57)"

fun matches_layout :: "string \<Rightarrow> string \<Rightarrow> bool" where
  "matches_layout [] s = list_all (\<lambda>c. c = CHR '' '') s"
| "matches_layout (l # ls) [] = False"
| "matches_layout (l # ls) (c # cs) =
     ((if l = CHR ''d'' then is_digit c else c = l) \<and> matches_layout ls cs)"

definition second_precision :: "string \<Rightarrow> bool" where
  "second_precision s = matches_layout ''dddd-dd-dd dd:dd:dd'' s"

section \<open>Deleting an entry (deleteJsonItem, lines 425-457)\<close>

text \<open>
  \<^verbatim>\<open>os.ReadFile\<close> and \<^verbatim>\<open>json.Unmarshal\<close> (lines 426-434) read the whole text as one
  JSON value into a zero \<^verbatim>\<open>ClipboardHistory\<close>; any error ends the call before the file is
  touched. Then comes the loop of lines 436-441, \<open>keep_others\<close>, with \<open>updated\<close> the slice
  built so far, and \<^verbatim>\<open>os.WriteFile\<close>, which overwrites the file.
\<close>

fun keep_others :: "ClipboardEntry list \<Rightarrow> string \<Rightarrow> ClipboardEntry list \<Rightarrow> ClipboardEntry list" where
  "keep_others [] item updated = updated"
| "keep_others (entry # rest) item updated =
     (if Value entry \<noteq> item then keep_others rest item (updated @ [entry])
      else keep_others rest item updated)"

definition deleteJsonItem :: "fsys \<Rightarrow> string \<Rightarrow> string \<Rightarrow> error option \<times> fsys" where
  "deleteJsonItem fs fullPath item =
     (case files fs fullPath of
        None \<Rightarrow> (Some PathError, fs)
      | Some Malformed \<Rightarrow> (Some SyntaxError, fs)
      | Some (Trailing j) \<Rightarrow> (Some SyntaxError, fs)
      | Some (Document j) \<Rightarrow>
          (case decode_Data \<lparr>ClipboardHistory = []\<rparr> j of
             (data, Some e) \<Rightarrow> (Some e, fs)
           | (data, None) \<Rightarrow>
               let updatedClipboardHistory = keep_others (ClipboardHistory data) item [];
                   updatedData = \<lparr>ClipboardHistory = updatedClipboardHistory\<rparr>
               in if \<not> writable fs fullPath then (Some PathError, fs)
                  else (None, fs\<lparr>files := (files fs)(fullPath := Some (Document (encode_Data updatedData)))\<rparr>)))"

section \<open>The browser's item delegate (newItemDelegate, lines 300-353)\<close>

text \<open>
  The list component comes from a library; the model keeps what the delegate reads and
  writes: the items, the cursor and the status message. The styling of the message is
  left out. A key binding is its keys and whether it is enabled; the two bindings of
  \<^verbatim>\<open>delegateKeyMap\<close>, \<^verbatim>\<open>choose\<close> and \<^verbatim>\<open>remove\<close>, carry a suffix here.
\<close>

record item =
  title :: string
  titleFull :: string
  description :: string

record list_Model =
  items :: "item list"
  cursor :: nat
  statusMessage :: string

record Binding =
  keys :: "string list"
  enabled :: bool

record delegateKeyMap =
  choose_binding :: Binding
  remove_binding :: Binding

text \<open>The messages of the event loop; a key message carries the name of the key.\<close>

datatype msg = KeyMsg string | WindowSizeMsg nat nat | OtherMsg

text \<open>The command \<^verbatim>\<open>NewStatusMessage\<close> returns: the timer that clears the message.\<close>

datatype cmd = StatusMessageTimeout

text \<open>
  The world outside the process: the system clipboard (its text, and whether the
  platform's clipboard command works), the file system and the user's home directory
  (\<open>None\<close> when \<^verbatim>\<open>user.Current\<close> fails).
\<close>

record world =
  clipboard_text :: string
  clipboard_works :: bool
  disk :: fsys
  home :: "string option"

record session =
  lst :: list_Model
  dkeys :: delegateKeyMap
  env :: world

text \<open>Lines 380-391.\<close>

definition newDelegateKeyMap :: delegateKeyMap where
  "newDelegateKeyMap =
     \<lparr>choose_binding = \<lparr>keys = [''enter''], enabled = True\<rparr>,
      remove_binding = \<lparr>keys = [''x'', ''backspace''], enabled = True\<rparr>\<rparr>"

text \<open>\<^verbatim>\<open>key.Matches\<close>: the key is one of the binding's, and the binding is enabled.\<close>

definition Matches :: "string \<Rightarrow> Binding \<Rightarrow> bool" where
  "Matches k b = (k \<in> set (keys b) \<and> enabled b)"

text \<open>\<^verbatim>\<open>SelectedItem\<close>: the item under the cursor, nil when there is none.\<close>

definition SelectedItem :: "list_Model \<Rightarrow> item option" where
  "SelectedItem m = (if cursor m < length (items m) then Some (items m ! cursor m) else None)"

text \<open>\<^verbatim>\<open>RemoveItem\<close>: no change when the index is out of range.\<close>

definition RemoveItem :: "list_Model \<Rightarrow> nat \<Rightarrow> list_Model" where
  "RemoveItem m i =
     (if i \<ge> length (items m) then m
      else m\<lparr>items := take i (items m) @ drop (Suc i) (items m)\<rparr>)"

definition NewStatusMessage :: "list_Model \<Rightarrow> string \<Rightarrow> list_Model \<times> cmd option" where
  "NewStatusMessage m s = (m\<lparr>statusMessage := s\<rparr>, Some StatusMessageTimeout)"

text \<open>\<^verbatim>\<open>clipboard.WriteAll\<close>.\<close>

definition WriteAll :: "world \<Rightarrow> string \<Rightarrow> error option \<times> world" where
  "WriteAll w s =
     (if clipboard_works w then (None, w\<lparr>clipboard_text := s\<rparr>) else (Some ClipboardError, w))"

text \<open>
  \<^verbatim>\<open>getFullPath\<close> (lines 481-491), for a home directory written without a trailing
  separator; the process exits with code 1 when the user cannot be found.
\<close>

definition getFullPath :: "world \<Rightarrow> string outcome" where
  "getFullPath w =
     (case home w of
        None \<Rightarrow> Exited 1
      | Some h \<Rightarrow> Returned (h @ ''/.config/clipboard_manager/clipboard_history.json''))"

text \<open>
  \<^verbatim>\<open>d.UpdateFunc\<close> (lines 303-340). The result is the command returned and the session
  after the call, or the panic of line 320, or the exit of line 333.
\<close>

definition UpdateFunc :: "msg \<Rightarrow> session \<Rightarrow> (cmd option \<times> session) outcome" where
  "UpdateFunc m s =
     (case SelectedItem (lst s) of
        None \<Rightarrow> Returned (None, s)
      | Some i \<Rightarrow>
          let title = title i; fullValue = titleFull i in
          (case m of
             KeyMsg k \<Rightarrow>
               if Matches k (choose_binding (dkeys s)) then
                 (case WriteAll (env s) fullValue of
                    (Some err, w) \<Rightarrow> Panicked err
                  | (None, w) \<Rightarrow>
                      (case NewStatusMessage (lst s) (''Copied to clipboard: '' @ title) of
                         (l, c) \<Rightarrow> Returned (c, s\<lparr>lst := l, env := w\<rparr>)))
               else if Matches k (remove_binding (dkeys s)) then
                 let index = cursor (lst s);
                     l1 = RemoveItem (lst s) index;
                     dkeys1 = (if length (items l1) = 0
                               then (dkeys s)\<lparr>remove_binding := (remove_binding (dkeys s))\<lparr>enabled := False\<rparr>\<rparr>
                               else dkeys s)
                 in (case getFullPath (env s) of
                       Exited n \<Rightarrow> Exited n
                     | Panicked e \<Rightarrow> Panicked e
                     | Returned fullPath \<Rightarrow>
                         (case deleteJsonItem (disk (env s)) fullPath fullValue of
                            (Some err, fs') \<Rightarrow> Exited 1
                          | (None, fs') \<Rightarrow>
                              (case NewStatusMessage l1 (''Deleted: '' @ title) of
                                 (l, c) \<Rightarrow>
                                   Returned (c, \<lparr>lst = l, dkeys = dkeys1, env = (env s)\<lparr>disk := fs'\<rparr>\<rparr>))))
               else Returned (None, s)
           | WindowSizeMsg w h \<Rightarrow> Returned (None, s)
           | OtherMsg \<Rightarrow> Returned (None, s)))"

text \<open>
  The session as a run of the delegate over the messages it receives. The program has no
  \<^verbatim>\<open>recover\<close>: a panic or an exit ends the run, and the messages that follow are not
  handled. What the list component itself does with a message (moving the cursor,
  filtering, paging) is outside the program and left out.
\<close>

fun browser_run :: "session \<Rightarrow> msg list \<Rightarrow> session outcome" where
  "browser_run s [] = Returned s"
| "browser_run s (m # ms) =
     (case UpdateFunc m s of
        Returned (c, s') \<Rightarrow> browser_run s' ms
      | Panicked e \<Rightarrow> Panicked e
      | Exited n \<Rightarrow> Exited n)"

text \<open>A run that is still going: it has neither panicked nor exited.\<close>

definition still_running :: "'a outcome \<Rightarrow> bool" where
  "still_running r = (case r of Returned x \<Rightarrow> True | Panicked e \<Rightarrow> False | Exited n \<Rightarrow> False)"

section \<open>The listener's store: helper lemmas\<close>

lemma contains_iff: "contains slice str \<longleftrightarrow> str \<in> Value ` set slice"
  by (induction slice) auto

text \<open>The history a pass leaves in memory, in closed form.\<close>

lemma pass_history:
  "ClipboardHistory (fst (listener_pass p (data, fs) (text, clock))) =
     (if text \<noteq> [] \<and> \<not> contains (ClipboardHistory data) text then
        \<lparr>Value = text, Recorded = split_first ''+0000'' clock\<rparr> #
          (if 50 \<le> length (ClipboardHistory data) then butlast (ClipboardHistory data)
           else ClipboardHistory data)
      else ClipboardHistory data)"
  by (simp add: add_item_def Let_def butlast_conv_take)

lemma pass_distinct:
  assumes "distinct (map Value (ClipboardHistory (fst st)))"
  shows "distinct (map Value (ClipboardHistory (fst (listener_pass p st ob))))"
proof -
  obtain data fs t clock where st: "st = (data, fs)" and ob: "ob = (t, clock)"
    by (cases st, cases ob) auto
  have "distinct (map Value (butlast (ClipboardHistory data)))"
    using assms st by (simp add: map_butlast distinct_butlast)
  moreover have "t \<notin> Value ` set (butlast (ClipboardHistory data))"
    if "\<not> contains (ClipboardHistory data) t"
    using that by (auto simp: contains_iff dest: in_set_butlastD)
  ultimately show ?thesis
    using assms unfolding st ob pass_history by (auto simp: contains_iff)
qed

lemma loop_distinct:
  "distinct (map Value (ClipboardHistory (fst st))) \<Longrightarrow>
   distinct (map Value (ClipboardHistory (fst (listener_loop p st obs))))"
  by (induction obs arbitrary: st) (simp_all add: pass_distinct)

lemma pass_length:
  assumes "length (ClipboardHistory (fst st)) \<le> 50"
  shows "length (ClipboardHistory (fst (listener_pass p st ob))) \<le> 50"
proof -
  obtain data fs t clock where st: "st = (data, fs)" and ob: "ob = (t, clock)"
    by (cases st, cases ob) auto
  show ?thesis using assms unfolding st ob pass_history by auto
qed

lemma loop_length:
  "length (ClipboardHistory (fst st)) \<le> 50 \<Longrightarrow>
   length (ClipboardHistory (fst (listener_loop p st obs))) \<le> 50"
  by (induction obs arbitrary: st) (simp_all add: pass_length)

lemma numbered_not_contains:
  "\<not> contains (map (\<lambda>n. \<lparr>Value = replicate (Suc n) (CHR ''a''), Recorded = []\<rparr>) ns) ''new''"
  by (induction ns) simp_all

lemma split_first_stamp:
  "CHR ''+'' \<notin> set stamp \<Longrightarrow> split_first ''+0000'' (stamp @ ''+0000'' @ rest) = stamp"
  by (induction stamp) auto

lemma second_precision_whole_second:
  "second_precision (split_first ''+0000'' ''2024-05-01 10:20:30 +0000 UTC'')"
  by (simp add: second_precision_def is_digit_def)

section \<open>The codec: helper lemmas\<close>

lemma first_cases:
  "first b = Some (sz, lo, hi) \<Longrightarrow> sz \<in> {1, 2, 3, 4}"
  by (auto simp: first_def split: if_splits)

lemma rune_width_bounds:
  assumes "rune_width s = Some n"
  shows "1 \<le> n \<and> n \<le> length s \<and> n \<le> 4"
proof (cases s)
  case Nil
  then show ?thesis using assms by simp
next
  case (Cons s0 rest)
  obtain sz lo hi where f: "first (of_char s0) = Some (sz, lo, hi)"
    using assms Cons by (auto split: option.splits)
  have "sz \<in> {1, 2, 3, 4}" using f by (rule first_cases)
  then show ?thesis
    using assms Cons f by (auto split: if_splits simp: Suc_le_eq)
qed

lemma rune_width_prefix:
  assumes "rune_width (c # cs) = Some n"
  shows "rune_width (c # take (n - 1) cs @ r) = Some n"
proof -
  obtain sz lo hi where f: "first (of_char c) = Some (sz, lo, hi)"
    using assms by (auto split: option.splits)
  have "sz \<in> {1, 2, 3, 4}" using f by (rule first_cases)
  then consider "sz = 1" | "sz = 2" | "sz = 3" | "sz = 4" by auto
  then show ?thesis
  proof cases
    case 1
    then show ?thesis using assms f by auto
  next
    case 2
    then have "n = 2 \<and> 1 \<le> length cs \<and> between lo hi (cs ! 0)"
      using assms f by (simp add: Suc_le_eq split: if_splits)
    then show ?thesis using f 2 by (simp add: nth_append)
  next
    case 3
    then have "n = 3 \<and> 2 \<le> length cs \<and> between lo hi (cs ! 0) \<and> between 0x80 0xBF (cs ! 1)"
      using assms f by (simp add: Suc_le_eq split: if_splits)
    then show ?thesis using f 3 by (simp add: nth_append)
  next
    case 4
    then have "n = 4 \<and> 3 \<le> length cs \<and> between lo hi (cs ! 0) \<and> between 0x80 0xBF (cs ! 1)
        \<and> between 0x80 0xBF (cs ! 2)"
      using assms f by (simp add: Suc_le_eq split: if_splits)
    then show ?thesis using f 4 by (simp add: nth_append)
  qed
qed

lemma valid_coerce: "valid_utf8 (coerce_utf8 s)"
proof (induction s rule: coerce_utf8.induct)
  case 1
  then show ?case by simp
next
  case (2 c cs)
  show ?case
  proof (cases "rune_width (c # cs)")
    case None
    have "rune_width (replacement @ coerce_utf8 cs) = Some 3"
      by (simp add: replacement_def first_def between_def)
    then show ?thesis
      using None 2(1) by (simp add: replacement_def del: rune_width.simps)
  next
    case (Some n)
    have b: "n - 1 \<le> length cs" using rune_width_bounds [OF Some] by auto
    have "rune_width (c # take (n - 1) cs @ coerce_utf8 (drop (n - 1) cs)) = Some n"
      using Some by (rule rune_width_prefix)
    moreover have "drop (n - 1) (take (n - 1) cs @ coerce_utf8 (drop (n - 1) cs)) =
        coerce_utf8 (drop (n - 1) cs)"
      using b by simp
    ultimately show ?thesis
      using Some 2(2) by (simp del: rune_width.simps)
  qed
qed

lemma coerce_valid: "valid_utf8 s \<Longrightarrow> coerce_utf8 s = s"
proof (induction s rule: coerce_utf8.induct)
  case 1
  then show ?case by simp
next
  case (2 c cs)
  from 2(3) obtain n where n: "rune_width (c # cs) = Some n" and v: "valid_utf8 (drop (n - 1) cs)"
    by (auto simp del: rune_width.simps split: option.splits)
  have "coerce_utf8 (drop (n - 1) cs) = drop (n - 1) cs"
    using 2(2) n v by simp
  then show ?case
    using n by (simp del: rune_width.simps)
qed

lemma coerce_idem: "coerce_utf8 (coerce_utf8 s) = coerce_utf8 s"
  by (simp add: coerce_valid valid_coerce)

lemma decode_encode_item: "decode_item (encode_item e) = (coerce_item e, None)"
  by (simp add: encode_item_def coerce_item_def coerce_idem earliest_def)

lemma no_error_items:
  "foldl earliest a (map (\<lambda>v. snd (decode_item v)) (map encode_item h)) = a"
proof (induction h arbitrary: a)
  case Nil
  then show ?case by simp
next
  case (Cons e h)
  have "earliest a None = a" by (simp add: earliest_def split: option.splits)
  then show ?case using Cons by (simp add: decode_encode_item)
qed

lemma decode_encode_Data:
  "decode_Data cur (encode_Data d) = (\<lparr>ClipboardHistory = map coerce_item (ClipboardHistory d)\<rparr>, None)"
proof -
  have "map (\<lambda>v. fst (decode_item v)) (map encode_item h) = map coerce_item h" for h
    by (simp add: decode_encode_item)
  then show ?thesis
    using no_error_items [of None "ClipboardHistory d"]
    by (simp add: encode_Data_def earliest_def del: map_map)
qed

lemma coerce_item_valid: "valid_item e \<Longrightarrow> coerce_item e = e"
  by (simp add: coerce_item_def valid_item_def coerce_valid)

lemma decode_string_valid:
  "decode_string cur v = (s, e) \<Longrightarrow> valid_utf8 cur \<Longrightarrow> valid_utf8 s"
  by (cases v) (auto simp: valid_coerce)

lemma decode_item_field_valid:
  "valid_item (fst acc) \<Longrightarrow> valid_item (fst (decode_item_field acc kv))"
  by (cases acc, cases kv)
     (auto simp: valid_item_def split: prod.splits dest: decode_string_valid)

lemma foldl_item_fields_valid:
  "valid_item (fst acc) \<Longrightarrow> valid_item (fst (foldl decode_item_field acc kvs))"
  by (induction kvs arbitrary: acc) (simp_all add: decode_item_field_valid)

lemma decode_item_valid: "valid_item (fst (decode_item v))"
proof (cases v)
  case (JObject kvs)
  have "valid_item (fst (\<lparr>Value = [], Recorded = []\<rparr>, None :: error option))"
    by (simp add: valid_item_def)
  then show ?thesis
    unfolding JObject decode_item.simps by (rule foldl_item_fields_valid)
qed (simp_all add: valid_item_def)

lemma decode_items_valid:
  "decode_items cur v = (h, e) \<Longrightarrow> list_all valid_item cur \<Longrightarrow> list_all valid_item h"
  by (cases v) (auto simp: list_all_iff decode_item_valid)

lemma decode_Data_field_valid:
  "list_all valid_item (ClipboardHistory (fst acc)) \<Longrightarrow>
   list_all valid_item (ClipboardHistory (fst (decode_Data_field acc kv)))"
  by (cases acc, cases kv) (auto split: prod.splits dest: decode_items_valid)

lemma foldl_Data_fields_valid:
  "list_all valid_item (ClipboardHistory (fst acc)) \<Longrightarrow>
   list_all valid_item (ClipboardHistory (fst (foldl decode_Data_field acc kvs)))"
  by (induction kvs arbitrary: acc) (simp_all add: decode_Data_field_valid)

lemma decode_Data_valid:
  "list_all valid_item (ClipboardHistory cur) \<Longrightarrow>
   list_all valid_item (ClipboardHistory (fst (decode_Data cur v)))"
  by (cases v) (simp_all add: foldl_Data_fields_valid)

lemma load_valid:
  assumes "loadDataFromFile fs p \<lparr>ClipboardHistory = []\<rparr> = (err, data)"
  shows "list_all valid_item (ClipboardHistory data)"
proof (cases "files fs p")
  case None
  then show ?thesis using assms by (auto simp: loadDataFromFile_def)
next
  case (Some c)
  show ?thesis
  proof (cases c)
    case Malformed
    then show ?thesis using assms Some by (auto simp: loadDataFromFile_def)
  next
    case (Document j)
    have "data = fst (decode_Data \<lparr>ClipboardHistory = []\<rparr> j)"
      using assms Some Document by (auto simp: loadDataFromFile_def split: prod.splits)
    then show ?thesis
      using decode_Data_valid [of "\<lparr>ClipboardHistory = []\<rparr>" j] by simp
  next
    case (Trailing j)
    have "data = fst (decode_Data \<lparr>ClipboardHistory = []\<rparr> j)"
      using assms Some Trailing by (auto simp: loadDataFromFile_def split: prod.splits)
    then show ?thesis
      using decode_Data_valid [of "\<lparr>ClipboardHistory = []\<rparr>" j] by simp
  qed
qed

lemma map_coerce_valid: "list_all valid_item h \<Longrightarrow> map coerce_item h = h"
  by (induction h) (simp_all add: coerce_item_valid)

lemma keep_others_filter:
  "keep_others h item updated = updated @ filter (\<lambda>entry. Value entry \<noteq> item) h"
  by (induction h arbitrary: updated) simp_all

lemma load_save:
  "writable fs p \<Longrightarrow>
   loadDataFromFile (snd (saveDataToFile fs p d)) p cur =
     (None, \<lparr>ClipboardHistory = map coerce_item (ClipboardHistory d)\<rparr>)"
  by (simp add: saveDataToFile_def loadDataFromFile_def decode_encode_Data)

lemma delete_document:
  assumes j: "files fs p = Some (Document j)"
    and d: "decode_Data \<lparr>ClipboardHistory = []\<rparr> j = (data, None)"
    and w: "writable fs p"
  shows "deleteJsonItem fs p v =
           (None, fs\<lparr>files := (files fs)(p := Some (Document (encode_Data
              \<lparr>ClipboardHistory = filter (\<lambda>entry. Value entry \<noteq> v) (ClipboardHistory data)\<rparr>)))\<rparr>)"
  using j d w by (simp add: deleteJsonItem_def keep_others_filter)

text \<open>
  The two parsers apart: a file whose JSON value is followed by other text loads in the
  listener, and \<^verbatim>\<open>deleteJsonItem\<close> returns an error on it and leaves it as it is.
\<close>

lemma trailing_text_loads_and_delete_fails:
  assumes "files fs p = Some (Trailing j)"
  shows "loadDataFromFile fs p cur = (snd (decode_Data cur j), fst (decode_Data cur j))
         \<and> deleteJsonItem fs p v = (Some SyntaxError, fs)"
  using assms by (simp add: loadDataFromFile_def deleteJsonItem_def split: prod.splits)

section \<open>Properties of the specification, C1 to C10\<close>

text \<open>
  C1. Uniqueness: whatever the clipboard and the clock show, pass after pass, a listener
  that starts from the empty store never holds two entries with the same value.
\<close>

theorem C1_uniqueness:
  "distinct (map Value (ClipboardHistory
     (fst (listener_loop p (\<lparr>ClipboardHistory = []\<rparr>, fs) obs))))"
  by (rule loop_distinct) simp

text \<open>
  The run of the specification's example with a repeated value: the second \<open>a\<close> is not
  recorded again.
\<close>

theorem C1_uniqueness_witness:
  "map Value (ClipboardHistory (fst (listener_loop ''f''
      (\<lparr>ClipboardHistory = []\<rparr>, \<lparr>files = (\<lambda>p. None), writable = (\<lambda>p. True)\<rparr>)
      [(''a'', ''t1 +0000 UTC''), (''b'', ''t2 +0000 UTC''), (''a'', ''t3 +0000 UTC'')])))
     = [''b'', ''a'']
   \<and> distinct (map Value (ClipboardHistory (fst (listener_loop ''f''
      (\<lparr>ClipboardHistory = []\<rparr>, \<lparr>files = (\<lambda>p. None), writable = (\<lambda>p. True)\<rparr>)
      [(''a'', ''t1 +0000 UTC''), (''b'', ''t2 +0000 UTC''), (''a'', ''t3 +0000 UTC'')]))))"
  using C1_uniqueness [of "''f''" "\<lparr>files = (\<lambda>p. None), writable = (\<lambda>p. True)\<rparr>"
      "[(''a'', ''t1 +0000 UTC''), (''b'', ''t2 +0000 UTC''), (''a'', ''t3 +0000 UTC'')]"]
  by (simp add: add_item_def saveDataToFile_def Let_def)

text \<open>
  C2. Capacity: a listener that starts from the empty store never holds more than 50
  entries; and when the store holds exactly 50 and a new, non-empty value arrives, the pass
  drops the last entry (the oldest), puts the new one in front and leaves 50 entries.
\<close>

theorem C2_capacity:
  "length (ClipboardHistory (fst (listener_loop p (\<lparr>ClipboardHistory = []\<rparr>, fs) obs))) \<le> 50
   \<and> (length (ClipboardHistory data) = 50 \<and> text \<noteq> [] \<and> \<not> contains (ClipboardHistory data) text \<longrightarrow>
        ClipboardHistory (fst (listener_pass p (data, fs') (text, clock))) =
          \<lparr>Value = text, Recorded = split_first ''+0000'' clock\<rparr> # butlast (ClipboardHistory data)
        \<and> length (ClipboardHistory (fst (listener_pass p (data, fs') (text, clock)))) = 50)"
proof
  show "length (ClipboardHistory (fst (listener_loop p (\<lparr>ClipboardHistory = []\<rparr>, fs) obs))) \<le> 50"
    by (rule loop_length) simp
next
  show "length (ClipboardHistory data) = 50 \<and> text \<noteq> [] \<and> \<not> contains (ClipboardHistory data) text \<longrightarrow>
        ClipboardHistory (fst (listener_pass p (data, fs') (text, clock))) =
          \<lparr>Value = text, Recorded = split_first ''+0000'' clock\<rparr> # butlast (ClipboardHistory data)
        \<and> length (ClipboardHistory (fst (listener_pass p (data, fs') (text, clock)))) = 50"
    unfolding pass_history by simp
qed

text \<open>A short run from the empty store, and a store of 50 entries that takes a 51st value.\<close>

theorem C2_capacity_witness:
  "length (ClipboardHistory (fst (listener_loop ''f''
      (\<lparr>ClipboardHistory = []\<rparr>, \<lparr>files = (\<lambda>p. None), writable = (\<lambda>p. True)\<rparr>)
      [(''a'', ''t1 +0000 UTC''), (''b'', ''t2 +0000 UTC''), (''c'', ''t3 +0000 UTC'')]))) \<le> 50
   \<and> length (map (\<lambda>n. \<lparr>Value = replicate (Suc n) (CHR ''a''), Recorded = []\<rparr>) [0..<50]) = 50
   \<and> ''new'' \<noteq> []
   \<and> \<not> contains (map (\<lambda>n. \<lparr>Value = replicate (Suc n) (CHR ''a''), Recorded = []\<rparr>) [0..<50]) ''new''
   \<and> ClipboardHistory (fst (listener_pass ''f''
        (\<lparr>ClipboardHistory = map (\<lambda>n. \<lparr>Value = replicate (Suc n) (CHR ''a''), Recorded = []\<rparr>) [0..<50]\<rparr>,
         \<lparr>files = (\<lambda>p. None), writable = (\<lambda>p. True)\<rparr>) (''new'', ''t4 +0000 UTC''))) =
       \<lparr>Value = ''new'', Recorded = ''t4 ''\<rparr> #
         map (\<lambda>n. \<lparr>Value = replicate (Suc n) (CHR ''a''), Recorded = []\<rparr>) [0..<49]"
proof -
  have b: "butlast (map (\<lambda>n. \<lparr>Value = replicate (Suc n) (CHR ''a''), Recorded = []\<rparr>) [0..<50]) =
           map (\<lambda>n. \<lparr>Value = replicate (Suc n) (CHR ''a''), Recorded = []\<rparr>) [0..<49]"
    by (simp add: butlast_conv_take take_map)
  show ?thesis
    using C2_capacity [of "''f''" "\<lparr>files = (\<lambda>p. None), writable = (\<lambda>p. True)\<rparr>"
        "[(''a'', ''t1 +0000 UTC''), (''b'', ''t2 +0000 UTC''), (''c'', ''t3 +0000 UTC'')]"
        "\<lparr>ClipboardHistory = map (\<lambda>n. \<lparr>Value = replicate (Suc n) (CHR ''a''), Recorded = []\<rparr>) [0..<50]\<rparr>"
        "''new''" "\<lparr>files = (\<lambda>p. None), writable = (\<lambda>p. True)\<rparr>" "''t4 +0000 UTC''"]
      numbered_not_contains [of "[0..<50]"] b
    by simp
qed

text \<open>
  C3 (as stated, refuted). The store of one entry whose value is the single byte \<open>0xFF\<close>
  satisfies the uniqueness and capacity invariants; saved and loaded again, its value is
  the three bytes of U+FFFD.
\<close>

theorem C3_roundtrip_counterexample:
  "distinct (map Value [\<lparr>Value = [CHR 0xFF], Recorded = ''2024-05-01 10:20:30 ''\<rparr>])
   \<and> length [\<lparr>Value = [CHR 0xFF], Recorded = ''2024-05-01 10:20:30 ''\<rparr>] \<le> 50
   \<and> loadDataFromFile
        (snd (saveDataToFile \<lparr>files = (\<lambda>p. None), writable = (\<lambda>p. True)\<rparr> ''f''
               \<lparr>ClipboardHistory = [\<lparr>Value = [CHR 0xFF], Recorded = ''2024-05-01 10:20:30 ''\<rparr>]\<rparr>))
        ''f'' \<lparr>ClipboardHistory = []\<rparr>
      = (None, \<lparr>ClipboardHistory =
           [\<lparr>Value = [CHR 0xEF, CHR 0xBF, CHR 0xBD], Recorded = ''2024-05-01 10:20:30 ''\<rparr>]\<rparr>)
   \<and> snd (loadDataFromFile
        (snd (saveDataToFile \<lparr>files = (\<lambda>p. None), writable = (\<lambda>p. True)\<rparr> ''f''
               \<lparr>ClipboardHistory = [\<lparr>Value = [CHR 0xFF], Recorded = ''2024-05-01 10:20:30 ''\<rparr>]\<rparr>))
        ''f'' \<lparr>ClipboardHistory = []\<rparr>)
      \<noteq> \<lparr>ClipboardHistory = [\<lparr>Value = [CHR 0xFF], Recorded = ''2024-05-01 10:20:30 ''\<rparr>]\<rparr>"
  by (simp add: saveDataToFile_def loadDataFromFile_def encode_Data_def encode_item_def
      first_def between_def replacement_def earliest_def)

text \<open>
  C3 (amended). When the backing file can be written, loading after saving gives the store
  with every string coerced to valid UTF-8; so a store whose values and timestamps are
  valid UTF-8 comes back equal to the original.
\<close>

theorem C3_roundtrip_valid_utf8:
  "writable fs p \<longrightarrow>
     fst (saveDataToFile fs p d) = None
     \<and> loadDataFromFile (snd (saveDataToFile fs p d)) p cur =
         (None, \<lparr>ClipboardHistory = map coerce_item (ClipboardHistory d)\<rparr>)
     \<and> ((\<forall>e \<in> set (ClipboardHistory d). valid_utf8 (Value e) \<and> valid_utf8 (Recorded e)) \<longrightarrow>
          loadDataFromFile (snd (saveDataToFile fs p d)) p cur = (None, d))"
proof (intro impI conjI)
  assume w: "writable fs p"
  then show "fst (saveDataToFile fs p d) = None" by (simp add: saveDataToFile_def)
  show "loadDataFromFile (snd (saveDataToFile fs p d)) p cur =
         (None, \<lparr>ClipboardHistory = map coerce_item (ClipboardHistory d)\<rparr>)"
    using w by (rule load_save)
  assume "\<forall>e \<in> set (ClipboardHistory d). valid_utf8 (Value e) \<and> valid_utf8 (Recorded e)"
  then have "list_all valid_item (ClipboardHistory d)"
    by (simp add: list_all_iff valid_item_def)
  then have "map coerce_item (ClipboardHistory d) = ClipboardHistory d"
    by (rule map_coerce_valid)
  then show "loadDataFromFile (snd (saveDataToFile fs p d)) p cur = (None, d)"
    using load_save [OF w, of d cur] by simp
qed

text \<open>A store with an ASCII value and a two-byte sequence (U+00E9) round-trips.\<close>

theorem C3_roundtrip_valid_utf8_witness:
  "writable \<lparr>files = (\<lambda>p. None), writable = (\<lambda>p. True)\<rparr> ''f''
   \<and> valid_utf8 ''caf'' \<and> valid_utf8 [CHR 0xC3, CHR 0xA9] \<and> valid_utf8 ''2024-05-01 10:20:30 ''
   \<and> loadDataFromFile
        (snd (saveDataToFile \<lparr>files = (\<lambda>p. None), writable = (\<lambda>p. True)\<rparr> ''f''
               \<lparr>ClipboardHistory = [\<lparr>Value = ''caf'', Recorded = ''2024-05-01 10:20:30 ''\<rparr>,
                                    \<lparr>Value = [CHR 0xC3, CHR 0xA9], Recorded = ''2024-05-01 10:20:30 ''\<rparr>]\<rparr>))
        ''f'' \<lparr>ClipboardHistory = []\<rparr>
      = (None, \<lparr>ClipboardHistory = [\<lparr>Value = ''caf'', Recorded = ''2024-05-01 10:20:30 ''\<rparr>,
                                    \<lparr>Value = [CHR 0xC3, CHR 0xA9], Recorded = ''2024-05-01 10:20:30 ''\<rparr>]\<rparr>)"
proof -
  have v: "valid_utf8 ''caf'' \<and> valid_utf8 [CHR 0xC3, CHR 0xA9] \<and> valid_utf8 ''2024-05-01 10:20:30 ''"
    by (simp add: first_def between_def)
  show ?thesis
    using v C3_roundtrip_valid_utf8 [of "\<lparr>files = (\<lambda>p. None), writable = (\<lambda>p. True)\<rparr>" "''f''"
        "\<lparr>ClipboardHistory = [\<lparr>Value = ''caf'', Recorded = ''2024-05-01 10:20:30 ''\<rparr>,
                              \<lparr>Value = [CHR 0xC3, CHR 0xA9], Recorded = ''2024-05-01 10:20:30 ''\<rparr>]\<rparr>"
        "\<lparr>ClipboardHistory = []\<rparr>"]
    by (simp add: coerce_item_def first_def between_def)
qed

text \<open>
  C4. Recency: when the value is not empty and not yet in the store, the pass puts the
  entry made of the value and the clock text at index 0; the entries behind it are the old
  store, without its last entry when it held 50 or more.
\<close>

theorem C4_prepend:
  "text \<noteq> [] \<and> \<not> contains (ClipboardHistory data) text \<longrightarrow>
     ClipboardHistory (fst (listener_pass p (data, fs) (text, clock))) ! 0 =
       \<lparr>Value = text, Recorded = split_first ''+0000'' clock\<rparr>
     \<and> tl (ClipboardHistory (fst (listener_pass p (data, fs) (text, clock)))) =
       (if 50 \<le> length (ClipboardHistory data) then butlast (ClipboardHistory data)
        else ClipboardHistory data)"
  unfolding pass_history by simp

theorem C4_prepend_witness:
  "''c'' \<noteq> [] \<and> \<not> contains [\<lparr>Value = ''b'', Recorded = ''t2 ''\<rparr>, \<lparr>Value = ''a'', Recorded = ''t1 ''\<rparr>] ''c''
   \<and> ClipboardHistory (fst (listener_pass ''f''
        (\<lparr>ClipboardHistory = [\<lparr>Value = ''b'', Recorded = ''t2 ''\<rparr>, \<lparr>Value = ''a'', Recorded = ''t1 ''\<rparr>]\<rparr>,
         \<lparr>files = (\<lambda>p. None), writable = (\<lambda>p. True)\<rparr>) (''c'', ''t3 +0000 UTC''))) ! 0
       = \<lparr>Value = ''c'', Recorded = ''t3 ''\<rparr>
   \<and> tl (ClipboardHistory (fst (listener_pass ''f''
        (\<lparr>ClipboardHistory = [\<lparr>Value = ''b'', Recorded = ''t2 ''\<rparr>, \<lparr>Value = ''a'', Recorded = ''t1 ''\<rparr>]\<rparr>,
         \<lparr>files = (\<lambda>p. None), writable = (\<lambda>p. True)\<rparr>) (''c'', ''t3 +0000 UTC''))))
       = [\<lparr>Value = ''b'', Recorded = ''t2 ''\<rparr>, \<lparr>Value = ''a'', Recorded = ''t1 ''\<rparr>]"
  using C4_prepend [of "''c''" "\<lparr>ClipboardHistory = [\<lparr>Value = ''b'', Recorded = ''t2 ''\<rparr>, \<lparr>Value = ''a'', Recorded = ''t1 ''\<rparr>]\<rparr>"
      "''f''" "\<lparr>files = (\<lambda>p. None), writable = (\<lambda>p. True)\<rparr>" "''t3 +0000 UTC''"]
  by simp

text \<open>
  C5. No-op: when the value is empty or already in the store, the pass changes neither
  the store (its entries, their order, their timestamps) nor the file system.
\<close>

theorem C5_noop:
  "text = [] \<or> contains (ClipboardHistory data) text \<Longrightarrow>
     listener_pass p (data, fs) (text, clock) = (data, fs)"
  by auto

theorem C5_noop_witness:
  "contains [\<lparr>Value = ''b'', Recorded = ''t2 ''\<rparr>, \<lparr>Value = ''a'', Recorded = ''t1 ''\<rparr>] ''a''
   \<and> listener_pass ''f''
        (\<lparr>ClipboardHistory = [\<lparr>Value = ''b'', Recorded = ''t2 ''\<rparr>, \<lparr>Value = ''a'', Recorded = ''t1 ''\<rparr>]\<rparr>,
         \<lparr>files = (\<lambda>p. None), writable = (\<lambda>p. True)\<rparr>) (''a'', ''t3 +0000 UTC'')
     = (\<lparr>ClipboardHistory = [\<lparr>Value = ''b'', Recorded = ''t2 ''\<rparr>, \<lparr>Value = ''a'', Recorded = ''t1 ''\<rparr>]\<rparr>,
         \<lparr>files = (\<lambda>p. None), writable = (\<lambda>p. True)\<rparr>)
   \<and> listener_pass ''f''
        (\<lparr>ClipboardHistory = [\<lparr>Value = ''b'', Recorded = ''t2 ''\<rparr>, \<lparr>Value = ''a'', Recorded = ''t1 ''\<rparr>]\<rparr>,
         \<lparr>files = (\<lambda>p. None), writable = (\<lambda>p. True)\<rparr>) ([], ''t3 +0000 UTC'')
     = (\<lparr>ClipboardHistory = [\<lparr>Value = ''b'', Recorded = ''t2 ''\<rparr>, \<lparr>Value = ''a'', Recorded = ''t1 ''\<rparr>]\<rparr>,
         \<lparr>files = (\<lambda>p. None), writable = (\<lambda>p. True)\<rparr>)"
  using C5_noop [of "''a''" "\<lparr>ClipboardHistory = [\<lparr>Value = ''b'', Recorded = ''t2 ''\<rparr>, \<lparr>Value = ''a'', Recorded = ''t1 ''\<rparr>]\<rparr>"
      "''f''" "\<lparr>files = (\<lambda>p. None), writable = (\<lambda>p. True)\<rparr>" "''t3 +0000 UTC''"]
    C5_noop [of "[]" "\<lparr>ClipboardHistory = [\<lparr>Value = ''b'', Recorded = ''t2 ''\<rparr>, \<lparr>Value = ''a'', Recorded = ''t1 ''\<rparr>]\<rparr>"
      "''f''" "\<lparr>files = (\<lambda>p. None), writable = (\<lambda>p. True)\<rparr>" "''t3 +0000 UTC''"]
  by simp

text \<open>
  C6. Delete. The store is what \<^verbatim>\<open>deleteJsonItem\<close> itself reads: the file's text is one
  JSON value that unmarshals without error into \<open>data\<close>. When the file can also be
  written, the call returns no error and puts in the file the encoding of the old store
  filtered: the entries whose value differs from the argument, in their old order and with
  their old content. That file reads back as the filtered store, without error, for both
  parsers of the program; no entry with the value is left; and when no entry had the
  value, the file reads back as the same store as before.
\<close>

theorem C6_delete:
  "files fs p = Some (Document j) \<and> decode_Data \<lparr>ClipboardHistory = []\<rparr> j = (data, None)
     \<and> writable fs p \<longrightarrow>
     deleteJsonItem fs p v =
       (None, fs\<lparr>files := (files fs)(p := Some (Document (encode_Data
          \<lparr>ClipboardHistory = filter (\<lambda>entry. Value entry \<noteq> v) (ClipboardHistory data)\<rparr>)))\<rparr>)
     \<and> decode_Data \<lparr>ClipboardHistory = []\<rparr> (encode_Data
          \<lparr>ClipboardHistory = filter (\<lambda>entry. Value entry \<noteq> v) (ClipboardHistory data)\<rparr>) =
         (\<lparr>ClipboardHistory = filter (\<lambda>entry. Value entry \<noteq> v) (ClipboardHistory data)\<rparr>, None)
     \<and> loadDataFromFile (snd (deleteJsonItem fs p v)) p \<lparr>ClipboardHistory = []\<rparr> =
         (None, \<lparr>ClipboardHistory = filter (\<lambda>entry. Value entry \<noteq> v) (ClipboardHistory data)\<rparr>)
     \<and> \<not> contains (filter (\<lambda>entry. Value entry \<noteq> v) (ClipboardHistory data)) v
     \<and> (\<not> contains (ClipboardHistory data) v \<longrightarrow>
          filter (\<lambda>entry. Value entry \<noteq> v) (ClipboardHistory data) = ClipboardHistory data
          \<and> loadDataFromFile (snd (deleteJsonItem fs p v)) p \<lparr>ClipboardHistory = []\<rparr> = (None, data))"
proof (intro impI, elim conjE)
  assume j: "files fs p = Some (Document j)"
    and d: "decode_Data \<lparr>ClipboardHistory = []\<rparr> j = (data, None)"
    and w: "writable fs p"
  let ?kept = "filter (\<lambda>entry. Value entry \<noteq> v) (ClipboardHistory data)"
  have del: "deleteJsonItem fs p v =
      (None, fs\<lparr>files := (files fs)(p := Some (Document (encode_Data \<lparr>ClipboardHistory = ?kept\<rparr>)))\<rparr>)"
    using j d w by (rule delete_document)
  have "loadDataFromFile fs p \<lparr>ClipboardHistory = []\<rparr> = (None, data)"
    using j d by (simp add: loadDataFromFile_def)
  then have "list_all valid_item (ClipboardHistory data)" by (rule load_valid)
  then have "list_all valid_item ?kept" by (simp add: list_all_iff)
  then have c: "map coerce_item ?kept = ?kept" by (rule map_coerce_valid)
  have dec: "decode_Data \<lparr>ClipboardHistory = []\<rparr> (encode_Data \<lparr>ClipboardHistory = ?kept\<rparr>) =
      (\<lparr>ClipboardHistory = ?kept\<rparr>, None)"
    by (simp add: decode_encode_Data c)
  have load: "loadDataFromFile (snd (deleteJsonItem fs p v)) p \<lparr>ClipboardHistory = []\<rparr> =
      (None, \<lparr>ClipboardHistory = ?kept\<rparr>)"
    unfolding del by (simp add: loadDataFromFile_def dec)
  have absent: "?kept = ClipboardHistory data" if "\<not> contains (ClipboardHistory data) v"
    using that by (auto simp: contains_iff filter_id_conv)
  have gone: "\<not> contains ?kept v" by (auto simp: contains_iff)
  show "deleteJsonItem fs p v =
       (None, fs\<lparr>files := (files fs)(p := Some (Document (encode_Data \<lparr>ClipboardHistory = ?kept\<rparr>)))\<rparr>)
     \<and> decode_Data \<lparr>ClipboardHistory = []\<rparr> (encode_Data \<lparr>ClipboardHistory = ?kept\<rparr>) =
         (\<lparr>ClipboardHistory = ?kept\<rparr>, None)
     \<and> loadDataFromFile (snd (deleteJsonItem fs p v)) p \<lparr>ClipboardHistory = []\<rparr> =
         (None, \<lparr>ClipboardHistory = ?kept\<rparr>)
     \<and> \<not> contains ?kept v
     \<and> (\<not> contains (ClipboardHistory data) v \<longrightarrow>
          ?kept = ClipboardHistory data
          \<and> loadDataFromFile (snd (deleteJsonItem fs p v)) p \<lparr>ClipboardHistory = []\<rparr> = (None, data))"
  proof (intro conjI impI)
    assume "\<not> contains (ClipboardHistory data) v"
    then have k: "?kept = ClipboardHistory data" by (rule absent)
    then show "?kept = ClipboardHistory data" .
    show "loadDataFromFile (snd (deleteJsonItem fs p v)) p \<lparr>ClipboardHistory = []\<rparr> = (None, data)"
      using load k by simp
  qed (rule del dec load gone)+
qed

text \<open>
  A file with the entries \<open>c\<close>, \<open>b\<close>, \<open>a\<close>: deleting \<open>b\<close> leaves \<open>c\<close>, \<open>a\<close>, and deleting
  the absent \<open>z\<close> returns no error and leaves all three.
\<close>

theorem C6_delete_witness:
  "files
      \<lparr>files = (\<lambda>p. if p = ''f'' then Some (Document (JObject [(''clipboardHistory'', JArray
          [JObject [(''value'', JString ''c''), (''recorded'', JString ''t3 '')],
           JObject [(''value'', JString ''b''), (''recorded'', JString ''t2 '')],
           JObject [(''value'', JString ''a''), (''recorded'', JString ''t1 '')]])])) else None),
        writable = (\<lambda>p. True)\<rparr> ''f''
    = Some (Document
      (JObject [(''clipboardHistory'', JArray
          [JObject [(''value'', JString ''c''), (''recorded'', JString ''t3 '')],
           JObject [(''value'', JString ''b''), (''recorded'', JString ''t2 '')],
           JObject [(''value'', JString ''a''), (''recorded'', JString ''t1 '')]])]))
   \<and> decode_Data \<lparr>ClipboardHistory = []\<rparr>
      (JObject [(''clipboardHistory'', JArray
          [JObject [(''value'', JString ''c''), (''recorded'', JString ''t3 '')],
           JObject [(''value'', JString ''b''), (''recorded'', JString ''t2 '')],
           JObject [(''value'', JString ''a''), (''recorded'', JString ''t1 '')]])])
    = (\<lparr>ClipboardHistory = [\<lparr>Value = ''c'', Recorded = ''t3 ''\<rparr>, \<lparr>Value = ''b'', Recorded = ''t2 ''\<rparr>,
         \<lparr>Value = ''a'', Recorded = ''t1 ''\<rparr>]\<rparr>, None)
   \<and> writable
      \<lparr>files = (\<lambda>p. if p = ''f'' then Some (Document (JObject [(''clipboardHistory'', JArray
          [JObject [(''value'', JString ''c''), (''recorded'', JString ''t3 '')],
           JObject [(''value'', JString ''b''), (''recorded'', JString ''t2 '')],
           JObject [(''value'', JString ''a''), (''recorded'', JString ''t1 '')]])])) else None),
        writable = (\<lambda>p. True)\<rparr> ''f''
   \<and> fst (deleteJsonItem
      \<lparr>files = (\<lambda>p. if p = ''f'' then Some (Document (JObject [(''clipboardHistory'', JArray
          [JObject [(''value'', JString ''c''), (''recorded'', JString ''t3 '')],
           JObject [(''value'', JString ''b''), (''recorded'', JString ''t2 '')],
           JObject [(''value'', JString ''a''), (''recorded'', JString ''t1 '')]])])) else None),
        writable = (\<lambda>p. True)\<rparr> ''f'' ''b'') = None
   \<and> loadDataFromFile (snd (deleteJsonItem
      \<lparr>files = (\<lambda>p. if p = ''f'' then Some (Document (JObject [(''clipboardHistory'', JArray
          [JObject [(''value'', JString ''c''), (''recorded'', JString ''t3 '')],
           JObject [(''value'', JString ''b''), (''recorded'', JString ''t2 '')],
           JObject [(''value'', JString ''a''), (''recorded'', JString ''t1 '')]])])) else None),
        writable = (\<lambda>p. True)\<rparr> ''f'' ''b'')) ''f'' \<lparr>ClipboardHistory = []\<rparr>
    = (None, \<lparr>ClipboardHistory = [\<lparr>Value = ''c'', Recorded = ''t3 ''\<rparr>, \<lparr>Value = ''a'', Recorded = ''t1 ''\<rparr>]\<rparr>)
   \<and> \<not> contains (ClipboardHistory \<lparr>ClipboardHistory = [\<lparr>Value = ''c'', Recorded = ''t3 ''\<rparr>, \<lparr>Value = ''b'', Recorded = ''t2 ''\<rparr>,
         \<lparr>Value = ''a'', Recorded = ''t1 ''\<rparr>]\<rparr>) ''z''
   \<and> fst (deleteJsonItem
      \<lparr>files = (\<lambda>p. if p = ''f'' then Some (Document (JObject [(''clipboardHistory'', JArray
          [JObject [(''value'', JString ''c''), (''recorded'', JString ''t3 '')],
           JObject [(''value'', JString ''b''), (''recorded'', JString ''t2 '')],
           JObject [(''value'', JString ''a''), (''recorded'', JString ''t1 '')]])])) else None),
        writable = (\<lambda>p. True)\<rparr> ''f'' ''z'') = None
   \<and> loadDataFromFile (snd (deleteJsonItem
      \<lparr>files = (\<lambda>p. if p = ''f'' then Some (Document (JObject [(''clipboardHistory'', JArray
          [JObject [(''value'', JString ''c''), (''recorded'', JString ''t3 '')],
           JObject [(''value'', JString ''b''), (''recorded'', JString ''t2 '')],
           JObject [(''value'', JString ''a''), (''recorded'', JString ''t1 '')]])])) else None),
        writable = (\<lambda>p. True)\<rparr> ''f'' ''z'')) ''f'' \<lparr>ClipboardHistory = []\<rparr>
    = (None, \<lparr>ClipboardHistory = [\<lparr>Value = ''c'', Recorded = ''t3 ''\<rparr>, \<lparr>Value = ''b'', Recorded = ''t2 ''\<rparr>,
         \<lparr>Value = ''a'', Recorded = ''t1 ''\<rparr>]\<rparr>)"
proof -
  have d: "decode_Data \<lparr>ClipboardHistory = []\<rparr>
      (JObject [(''clipboardHistory'', JArray
          [JObject [(''value'', JString ''c''), (''recorded'', JString ''t3 '')],
           JObject [(''value'', JString ''b''), (''recorded'', JString ''t2 '')],
           JObject [(''value'', JString ''a''), (''recorded'', JString ''t1 '')]])])
    = (\<lparr>ClipboardHistory = [\<lparr>Value = ''c'', Recorded = ''t3 ''\<rparr>, \<lparr>Value = ''b'', Recorded = ''t2 ''\<rparr>,
         \<lparr>Value = ''a'', Recorded = ''t1 ''\<rparr>]\<rparr>, None)"
    by (simp add: earliest_def first_def between_def)
  show ?thesis
    using d
      C6_delete [of
      "\<lparr>files = (\<lambda>p. if p = ''f'' then Some (Document (JObject [(''clipboardHistory'', JArray
          [JObject [(''value'', JString ''c''), (''recorded'', JString ''t3 '')],
           JObject [(''value'', JString ''b''), (''recorded'', JString ''t2 '')],
           JObject [(''value'', JString ''a''), (''recorded'', JString ''t1 '')]])])) else None),
        writable = (\<lambda>p. True)\<rparr>" "''f''"
      "(JObject [(''clipboardHistory'', JArray
          [JObject [(''value'', JString ''c''), (''recorded'', JString ''t3 '')],
           JObject [(''value'', JString ''b''), (''recorded'', JString ''t2 '')],
           JObject [(''value'', JString ''a''), (''recorded'', JString ''t1 '')]])])"
      "\<lparr>ClipboardHistory = [\<lparr>Value = ''c'', Recorded = ''t3 ''\<rparr>, \<lparr>Value = ''b'', Recorded = ''t2 ''\<rparr>,
         \<lparr>Value = ''a'', Recorded = ''t1 ''\<rparr>]\<rparr>" "''b''"]
      C6_delete [of
      "\<lparr>files = (\<lambda>p. if p = ''f'' then Some (Document (JObject [(''clipboardHistory'', JArray
          [JObject [(''value'', JString ''c''), (''recorded'', JString ''t3 '')],
           JObject [(''value'', JString ''b''), (''recorded'', JString ''t2 '')],
           JObject [(''value'', JString ''a''), (''recorded'', JString ''t1 '')]])])) else None),
        writable = (\<lambda>p. True)\<rparr>" "''f''"
      "(JObject [(''clipboardHistory'', JArray
          [JObject [(''value'', JString ''c''), (''recorded'', JString ''t3 '')],
           JObject [(''value'', JString ''b''), (''recorded'', JString ''t2 '')],
           JObject [(''value'', JString ''a''), (''recorded'', JString ''t1 '')]])])"
      "\<lparr>ClipboardHistory = [\<lparr>Value = ''c'', Recorded = ''t3 ''\<rparr>, \<lparr>Value = ''b'', Recorded = ''t2 ''\<rparr>,
         \<lparr>Value = ''a'', Recorded = ''t1 ''\<rparr>]\<rparr>" "''z''"]
    by (simp add: first_def between_def earliest_def loadDataFromFile_def encode_Data_def encode_item_def)
qed

text \<open>
  C7 (as stated, refuted). \<^verbatim>\<open>Time.String\<close> prints the fraction of the second, up to nine
  digits. For such a reading of the clock the recorded text carries the nanoseconds and does
  not have the layout of a timestamp to the second.
\<close>

theorem C7_second_precision_counterexample:
  "Recorded (ClipboardHistory (fst (listener_pass ''f''
        (\<lparr>ClipboardHistory = []\<rparr>, \<lparr>files = (\<lambda>p. None), writable = (\<lambda>p. True)\<rparr>)
        (''x'', ''2024-05-01 10:20:30.123456789 +0000 UTC''))) ! 0)
      = ''2024-05-01 10:20:30.123456789 ''
   \<and> \<not> second_precision (Recorded (ClipboardHistory (fst (listener_pass ''f''
        (\<lparr>ClipboardHistory = []\<rparr>, \<lparr>files = (\<lambda>p. None), writable = (\<lambda>p. True)\<rparr>)
        (''x'', ''2024-05-01 10:20:30.123456789 +0000 UTC''))) ! 0))"
  by (simp add: add_item_def Let_def second_precision_def is_digit_def)

text \<open>
  C7 (amended). For a clock text made of a stamp without \<open>+\<close>, a blank and
  \<^verbatim>\<open>+0000 UTC\<close>, the new entry records the stamp as it is, fraction included, followed by
  the blank: the text is cut at the zone offset, not at the second.
\<close>

theorem C7_timestamp_text:
  "text \<noteq> [] \<and> \<not> contains (ClipboardHistory data) text \<and> CHR ''+'' \<notin> set stamp \<longrightarrow>
     Recorded (ClipboardHistory (fst (listener_pass p (data, fs) (text, stamp @ '' +0000 UTC''))) ! 0)
       = stamp @ '' ''"
proof -
  have "split_first ''+0000'' ((stamp @ '' '') @ ''+0000'' @ '' UTC'') = stamp @ '' ''"
    if "CHR ''+'' \<notin> set stamp"
    using that by (intro split_first_stamp) simp
  then show ?thesis
    unfolding pass_history by simp
qed

theorem C7_timestamp_text_witness:
  "''x'' \<noteq> [] \<and> \<not> contains [] ''x'' \<and> CHR ''+'' \<notin> set ''2024-05-01 10:20:30.123456789''
   \<and> Recorded (ClipboardHistory (fst (listener_pass ''f''
        (\<lparr>ClipboardHistory = []\<rparr>, \<lparr>files = (\<lambda>p. None), writable = (\<lambda>p. True)\<rparr>)
        (''x'', ''2024-05-01 10:20:30.123456789'' @ '' +0000 UTC''))) ! 0)
      = ''2024-05-01 10:20:30.123456789 ''"
  using C7_timestamp_text [of "''x''" "\<lparr>ClipboardHistory = []\<rparr>" "''2024-05-01 10:20:30.123456789''"
      "''f''" "\<lparr>files = (\<lambda>p. None), writable = (\<lambda>p. True)\<rparr>"]
  by simp

text \<open>
  C8 (as stated, refuted). With a clipboard that cannot be written, the copy key makes
  the handler panic; the session is not running after it.
\<close>

theorem C8_session_continues_counterexample:
  "\<not> still_running (browser_run
        \<lparr>lst = \<lparr>items = [\<lparr>title = ''a'', titleFull = ''a'', description = ''Copied to clipboard: t1 ''\<rparr>],
                  cursor = 0, statusMessage = []\<rparr>,
         dkeys = newDelegateKeyMap,
         env = \<lparr>clipboard_text = ''old'', clipboard_works = False,
                 disk = \<lparr>files = (\<lambda>p. None), writable = (\<lambda>p. True)\<rparr>, home = Some ''/home/u''\<rparr>\<rparr>
        [KeyMsg ''enter''])
   \<and> UpdateFunc (KeyMsg ''enter'')
        \<lparr>lst = \<lparr>items = [\<lparr>title = ''a'', titleFull = ''a'', description = ''Copied to clipboard: t1 ''\<rparr>],
                  cursor = 0, statusMessage = []\<rparr>,
         dkeys = newDelegateKeyMap,
         env = \<lparr>clipboard_text = ''old'', clipboard_works = False,
                 disk = \<lparr>files = (\<lambda>p. None), writable = (\<lambda>p. True)\<rparr>, home = Some ''/home/u''\<rparr>\<rparr>
       = Panicked ClipboardError"
  by (simp add: UpdateFunc_def WriteAll_def Let_def still_running_def Matches_def
      newDelegateKeyMap_def SelectedItem_def)

text \<open>
  C8 (amended). When an item is selected, the key is bound to copy and the clipboard write
  fails, the handler panics with the error of the write: it sets no status message and
  does not return, and the run of the session ends in that panic whatever messages follow.
\<close>

theorem C8_copy_failure_panics:
  "SelectedItem (lst s) = Some i \<and> Matches k (choose_binding (dkeys s)) \<and> \<not> clipboard_works (env s) \<longrightarrow>
     UpdateFunc (KeyMsg k) s = Panicked ClipboardError
     \<and> browser_run s (KeyMsg k # ms) = Panicked ClipboardError
     \<and> \<not> still_running (browser_run s (KeyMsg k # ms))"
  by (auto simp: UpdateFunc_def WriteAll_def Let_def still_running_def)

theorem C8_copy_failure_panics_witness:
  "SelectedItem \<lparr>items = [\<lparr>title = ''a'', titleFull = ''a'', description = ''Copied to clipboard: t1 ''\<rparr>],
                  cursor = 0, statusMessage = []\<rparr>
     = Some \<lparr>title = ''a'', titleFull = ''a'', description = ''Copied to clipboard: t1 ''\<rparr>
   \<and> Matches ''enter'' (choose_binding newDelegateKeyMap)
   \<and> UpdateFunc (KeyMsg ''enter'')
        \<lparr>lst = \<lparr>items = [\<lparr>title = ''a'', titleFull = ''a'', description = ''Copied to clipboard: t1 ''\<rparr>],
                  cursor = 0, statusMessage = []\<rparr>,
         dkeys = newDelegateKeyMap,
         env = \<lparr>clipboard_text = ''old'', clipboard_works = False,
                 disk = \<lparr>files = (\<lambda>p. None), writable = (\<lambda>p. True)\<rparr>, home = Some ''/home/u''\<rparr>\<rparr>
       = Panicked ClipboardError
   \<and> browser_run
        \<lparr>lst = \<lparr>items = [\<lparr>title = ''a'', titleFull = ''a'', description = ''Copied to clipboard: t1 ''\<rparr>],
                  cursor = 0, statusMessage = []\<rparr>,
         dkeys = newDelegateKeyMap,
         env = \<lparr>clipboard_text = ''old'', clipboard_works = False,
                 disk = \<lparr>files = (\<lambda>p. None), writable = (\<lambda>p. True)\<rparr>, home = Some ''/home/u''\<rparr>\<rparr>
        [KeyMsg ''enter'', KeyMsg ''down'', KeyMsg ''enter'']
       = Panicked ClipboardError"
  using C8_copy_failure_panics [of
        "\<lparr>lst = \<lparr>items = [\<lparr>title = ''a'', titleFull = ''a'', description = ''Copied to clipboard: t1 ''\<rparr>],
                  cursor = 0, statusMessage = []\<rparr>,
         dkeys = newDelegateKeyMap,
         env = \<lparr>clipboard_text = ''old'', clipboard_works = False,
                 disk = \<lparr>files = (\<lambda>p. None), writable = (\<lambda>p. True)\<rparr>, home = Some ''/home/u''\<rparr>\<rparr>"
        "\<lparr>title = ''a'', titleFull = ''a'', description = ''Copied to clipboard: t1 ''\<rparr>"
        "''enter''" "[KeyMsg ''down'', KeyMsg ''enter'']"]
  by (simp add: Matches_def newDelegateKeyMap_def SelectedItem_def)

text \<open>
  C9. Copy: on a key bound to copy, a call that returns leaves the list's items, the cursor
  and the file system as they were; and with an item selected and a working clipboard, it
  returns with the item's full value on the clipboard and the status message set, nothing
  else changed.
\<close>

theorem C9_copy:
  "Matches k (choose_binding (dkeys s)) \<longrightarrow>
     (SelectedItem (lst s) = Some i \<and> clipboard_works (env s) \<longrightarrow>
        UpdateFunc (KeyMsg k) s =
          Returned (Some StatusMessageTimeout,
            s\<lparr>lst := (lst s)\<lparr>statusMessage := ''Copied to clipboard: '' @ title i\<rparr>,
              env := (env s)\<lparr>clipboard_text := titleFull i\<rparr>\<rparr>))
     \<and> (\<forall>c s'. UpdateFunc (KeyMsg k) s = Returned (c, s') \<longrightarrow>
           items (lst s') = items (lst s)
         \<and> cursor (lst s') = cursor (lst s)
         \<and> disk (env s') = disk (env s))"
  by (auto simp: UpdateFunc_def WriteAll_def NewStatusMessage_def Let_def
           split: option.splits)

text \<open>
  Copying the second of two items, one whose full value holds a newline that its title does
  not.
\<close>

theorem C9_copy_witness:
  "Matches ''enter'' (choose_binding newDelegateKeyMap)
   \<and> SelectedItem \<lparr>items = [\<lparr>title = ''newer'', titleFull = ''newer'', description = ''Copied to clipboard: t2 ''\<rparr>,
                              \<lparr>title = ''line one line two'', titleFull = ''line one'' @ [CHR 0x0A] @ ''line two'',
                                 description = ''Copied to clipboard: t1 ''\<rparr>],
                      cursor = 1, statusMessage = []\<rparr>
       = Some \<lparr>title = ''line one line two'', titleFull = ''line one'' @ [CHR 0x0A] @ ''line two'',
                 description = ''Copied to clipboard: t1 ''\<rparr>
   \<and> UpdateFunc (KeyMsg ''enter'')
        \<lparr>lst = \<lparr>items = [\<lparr>title = ''newer'', titleFull = ''newer'', description = ''Copied to clipboard: t2 ''\<rparr>,
                           \<lparr>title = ''line one line two'', titleFull = ''line one'' @ [CHR 0x0A] @ ''line two'',
                              description = ''Copied to clipboard: t1 ''\<rparr>],
                  cursor = 1, statusMessage = []\<rparr>,
         dkeys = newDelegateKeyMap,
         env = \<lparr>clipboard_text = ''old'', clipboard_works = True,
                 disk = \<lparr>files = (\<lambda>p. None), writable = (\<lambda>p. True)\<rparr>, home = Some ''/home/u''\<rparr>\<rparr>
      = Returned (Some StatusMessageTimeout,
        \<lparr>lst = \<lparr>items = [\<lparr>title = ''newer'', titleFull = ''newer'', description = ''Copied to clipboard: t2 ''\<rparr>,
                           \<lparr>title = ''line one line two'', titleFull = ''line one'' @ [CHR 0x0A] @ ''line two'',
                              description = ''Copied to clipboard: t1 ''\<rparr>],
                  cursor = 1, statusMessage = ''Copied to clipboard: line one line two''\<rparr>,
         dkeys = newDelegateKeyMap,
         env = \<lparr>clipboard_text = ''line one'' @ [CHR 0x0A] @ ''line two'', clipboard_works = True,
                 disk = \<lparr>files = (\<lambda>p. None), writable = (\<lambda>p. True)\<rparr>, home = Some ''/home/u''\<rparr>\<rparr>)"
  using C9_copy [of "''enter''"
        "\<lparr>lst = \<lparr>items = [\<lparr>title = ''newer'', titleFull = ''newer'', description = ''Copied to clipboard: t2 ''\<rparr>,
                           \<lparr>title = ''line one line two'', titleFull = ''line one'' @ [CHR 0x0A] @ ''line two'',
                              description = ''Copied to clipboard: t1 ''\<rparr>],
                  cursor = 1, statusMessage = []\<rparr>,
         dkeys = newDelegateKeyMap,
         env = \<lparr>clipboard_text = ''old'', clipboard_works = True,
                 disk = \<lparr>files = (\<lambda>p. None), writable = (\<lambda>p. True)\<rparr>, home = Some ''/home/u''\<rparr>\<rparr>"
        "\<lparr>title = ''line one line two'', titleFull = ''line one'' @ [CHR 0x0A] @ ''line two'',
                 description = ''Copied to clipboard: t1 ''\<rparr>"]
  by (simp add: Matches_def newDelegateKeyMap_def SelectedItem_def)

text \<open>
  C10. A store that already holds more than 50 entries: a pass that records a new value
  drops exactly the last entry, so the length is what it was and still above 50.
\<close>

theorem C10_over_capacity:
  "50 < length (ClipboardHistory data) \<and> text \<noteq> [] \<and> \<not> contains (ClipboardHistory data) text \<longrightarrow>
     ClipboardHistory (fst (listener_pass p (data, fs) (text, clock))) =
       \<lparr>Value = text, Recorded = split_first ''+0000'' clock\<rparr> # butlast (ClipboardHistory data)
     \<and> length (ClipboardHistory (fst (listener_pass p (data, fs) (text, clock)))) =
         length (ClipboardHistory data)
     \<and> 50 < length (ClipboardHistory (fst (listener_pass p (data, fs) (text, clock))))"
  unfolding pass_history by auto

theorem C10_over_capacity_witness:
  "50 < length (map (\<lambda>n. \<lparr>Value = replicate (Suc n) (CHR ''a''), Recorded = []\<rparr>) [0..<52])
   \<and> ''new'' \<noteq> []
   \<and> \<not> contains (map (\<lambda>n. \<lparr>Value = replicate (Suc n) (CHR ''a''), Recorded = []\<rparr>) [0..<52]) ''new''
   \<and> ClipboardHistory (fst (listener_pass ''f''
        (\<lparr>ClipboardHistory = map (\<lambda>n. \<lparr>Value = replicate (Suc n) (CHR ''a''), Recorded = []\<rparr>) [0..<52]\<rparr>,
         \<lparr>files = (\<lambda>p. None), writable = (\<lambda>p. True)\<rparr>) (''new'', ''t4 +0000 UTC''))) =
       \<lparr>Value = ''new'', Recorded = ''t4 ''\<rparr> #
         map (\<lambda>n. \<lparr>Value = replicate (Suc n) (CHR ''a''), Recorded = []\<rparr>) [0..<51]
   \<and> length (ClipboardHistory (fst (listener_pass ''f''
        (\<lparr>ClipboardHistory = map (\<lambda>n. \<lparr>Value = replicate (Suc n) (CHR ''a''), Recorded = []\<rparr>) [0..<52]\<rparr>,
         \<lparr>files = (\<lambda>p. None), writable = (\<lambda>p. True)\<rparr>) (''new'', ''t4 +0000 UTC'')))) = 52"
proof -
  have b: "butlast (map (\<lambda>n. \<lparr>Value = replicate (Suc n) (CHR ''a''), Recorded = []\<rparr>) [0..<52]) =
           map (\<lambda>n. \<lparr>Value = replicate (Suc n) (CHR ''a''), Recorded = []\<rparr>) [0..<51]"
    by (simp add: butlast_conv_take take_map)
  show ?thesis
    using C10_over_capacity [of
        "\<lparr>ClipboardHistory = map (\<lambda>n. \<lparr>Value = replicate (Suc n) (CHR ''a''), Recorded = []\<rparr>) [0..<52]\<rparr>"
        "''new''" "''f''" "\<lparr>files = (\<lambda>p. None), writable = (\<lambda>p. True)\<rparr>" "''t4 +0000 UTC''"]
      numbered_not_contains [of "[0..<52]"] b
    by simp
qed

end
